theory Spec2Isabelle
  imports Main
begin

section \<open>Strings\<close>

text \<open>
  A Python \<open>str\<close> is modelled as a \<open>string\<close>; each \<open>char\<close> stands for one code
  point below 256. \<open>isspace\<close> is the set of those code points that \<open>str.strip()\<close>
  removes, \<open>is_linebreak\<close> the set at which \<open>str.splitlines()\<close> cuts.
\<close>

definition newline :: string where
  "newline = [CHR 0x0A]"

definition isspace :: "char \<Rightarrow> bool" where
  "isspace c = (of_char c \<in> {9, 10, 11, 12, 13, 28, 29, 30, 31, 32, 133, 160 :: nat})"

definition is_linebreak :: "char \<Rightarrow> bool" where
  "is_linebreak c = (of_char c \<in> {10, 11, 12, 13, 28, 29, 30, 133 :: nat})"

definition strip :: "string \<Rightarrow> string" where
  "strip s = rev (dropWhile isspace (rev (dropWhile isspace s)))"

text \<open>
  \<open>str.splitlines()\<close>: the text is cut after every line boundary, the boundary is
  dropped, a carriage return followed by a line feed is one boundary, and a text that
  ends with a boundary has no empty last line. \<open>cur\<close> is the line read so far.
\<close>

function splitlines_from :: "string \<Rightarrow> string \<Rightarrow> string list" where
  "splitlines_from cur [] = (if cur = [] then [] else [cur])"
| "splitlines_from cur (c # cs) =
     (if is_linebreak c then
        cur # splitlines_from []
          (case cs of
             [] \<Rightarrow> []
           | d # ds \<Rightarrow> if c = CHR 0x0D \<and> d = CHR 0x0A then ds else d # ds)
      else splitlines_from (cur @ [c]) cs)"
  by pat_completeness auto
termination
  by (relation "measure (\<lambda>(cur, s). length s)") (auto split: list.splits)

definition splitlines :: "string \<Rightarrow> string list" where
  "splitlines s = splitlines_from [] s"

text \<open>\<open>_ = gettext.gettext\<close> with no catalogue loaded returns its argument.\<close>

definition gettext :: "string \<Rightarrow> string" where
  "gettext m = m"

section \<open>Exceptions and the program state\<close>

text \<open>
  \<open>exn\<close> stands for an instance of Python's \<open>Exception\<close>, the class every handler of
  the program catches; \<open>str_of e\<close> is \<open>str(e)\<close>. A computation returns the state it
  leaves together with the exception it raised, if any.
\<close>

datatype exn = Exception (str_of: string)

datatype box_state = Normal | Disabled

datatype box_call = Configure box_state | Insert string | See

text \<open>
  The log view \<open>output_box\<close>: its text, its state, and the calls made on it so far.
\<close>

record textbox =
  box_text :: string
  box_state :: box_state
  box_calls :: "box_call list"

datatype callback = Pump_queue | Poll_clipboard

text \<open>
  The module's globals and the outside world they act on: the Line Queue \<open>q\<close> (oldest
  line first), the content of the activity log \<open>log_file\<close>, the shared process handle,
  the pump's timer id, the log view, the timers registered with \<open>app.after\<close> (delay in
  milliseconds and callback, the position in the list is the timer's id), the shell
  commands launched as post-hooks, the calls of \<open>notification.notify\<close> (title and
  message), and the worker threads started (argument list and post-hook).
\<close>

record world =
  q :: "string list"
  log_file :: string
  current_process :: "nat option"
  pump_id :: "nat option"
  output_box :: textbox
  timers :: "(nat \<times> callback) list"
  hooks :: "string list"
  notifications :: "(string \<times> string) list"
  threads :: "(string list \<times> string option) list"

type_synonym outcome = "world \<times> exn option"

text \<open>Sequencing: the second statement runs only when the first raised nothing.\<close>

definition and_then :: "outcome \<Rightarrow> (world \<Rightarrow> outcome) \<Rightarrow> outcome" where
  "and_then r f = (case r of (w, None) \<Rightarrow> f w | (w, Some e) \<Rightarrow> (w, Some e))"

text \<open>\<open>try: ... except Exception: pass\<close>.\<close>

definition swallow :: "outcome \<Rightarrow> outcome" where
  "swallow r = (fst r, None)"

definition q_put :: "string \<Rightarrow> world \<Rightarrow> world" where
  "q_put line w = w\<lparr>q := q w @ [line]\<rparr>"

section \<open>The job runner\<close>

text \<open>
  The child's output is read through a pipe opened with \<open>text=True\<close>, that is with
  universal newlines: a carriage return followed by a line feed, and a carriage return
  alone, reach the program as one line feed.
\<close>

fun universal_newlines :: "string \<Rightarrow> string" where
  "universal_newlines [] = []"
| "universal_newlines [c] = (if c = CHR 0x0D then [CHR 0x0A] else [c])"
| "universal_newlines (c # d # cs) =
     (if c = CHR 0x0D \<and> d = CHR 0x0A then CHR 0x0A # universal_newlines cs
      else if c = CHR 0x0D then CHR 0x0A # universal_newlines (d # cs)
      else c # universal_newlines (d # cs))"

text \<open>
  Iterating over a text stream yields its lines: each ends with its line feed, the
  last one may lack it. \<open>cur\<close> is the line read so far.
\<close>

fun readlines_from :: "string \<Rightarrow> string \<Rightarrow> string list" where
  "readlines_from cur [] = (if cur = [] then [] else [cur])"
| "readlines_from cur (c # cs) =
     (if c = CHR 0x0A then (cur @ [c]) # readlines_from [] cs
      else readlines_from (cur @ [c]) cs)"

definition readlines :: "string \<Rightarrow> string list" where
  "readlines s = readlines_from [] s"

text \<open>
  The log is opened in text mode: every line feed written reaches the file as
  \<open>os.linesep\<close>.
\<close>

definition write_newlines :: "string \<Rightarrow> string \<Rightarrow> string" where
  "write_newlines sep s = concat (map (\<lambda>c. if c = CHR 0x0A then sep else [c]) s)"

text \<open>
  What the outside world does in one call of \<open>_run_yt_dlp\<close>: whether opening the log
  raises, what \<open>subprocess.Popen\<close> does with the argument list (raise, or return a
  handle), the text the child writes to its merged output (up to the point where
  reading it raises, when it does), whether the iteration over it ends by raising
  instead of at end of file, whether \<open>lg.write\<close> raises on the i-th line, the
  platform's \<open>os.linesep\<close>, whether flushing the log when the \<open>with\<close> block is left
  raises and how many characters of what this call wrote are in the file then, whether
  \<open>wait\<close> raises, and whether launching the post-hook and delivering the notification
  raise.
\<close>

record run_env =
  open_log :: "exn option"
  popen :: "string list \<Rightarrow> exn + nat"
  child_out :: string
  read_err :: "exn option"
  write_err :: "nat \<Rightarrow> exn option"
  linesep :: string
  close_err :: "exn option"
  close_kept :: nat
  wait_err :: "exn option"
  hook_err :: "exn option"
  notify_err :: "exn option"

text \<open>\<open>current_process.stdout\<close>, as the iteration of line 104 sees it.\<close>

definition stdout :: "run_env \<Rightarrow> string list" where
  "stdout env = readlines (universal_newlines (child_out env))"

text \<open>
  Lines 104-106, \<open>for line in current_process.stdout: q.put(line); lg.write(line)\<close>.
  \<open>i\<close> counts the lines written, \<open>fin\<close> is how the iteration ends. While the log is
  open, \<open>log_file\<close> holds what has been written to it, flushed or not.
\<close>

fun read_lines :: "string \<Rightarrow> (nat \<Rightarrow> exn option) \<Rightarrow> nat \<Rightarrow> string list \<Rightarrow> exn option \<Rightarrow> world \<Rightarrow> outcome" where
  "read_lines sep wr i [] fin w = (w, fin)"
| "read_lines sep wr i (line # rest) fin w =
     (let w1 = q_put line w in
      case wr i of
        Some e \<Rightarrow> (w1, Some e)
      | None \<Rightarrow>
          read_lines sep wr (Suc i) rest fin
            (w1\<lparr>log_file := log_file w1 @ write_newlines sep line\<rparr>))"

text \<open>
  Leaving \<open>with open(log_file, "a") as lg\<close>, on the normal path and on an exception
  alike, closes the log and so flushes what was written; \<open>w\<close> is the state when the
  log was opened. With nothing written there is nothing to flush. When flushing
  raises, only the first \<open>close_kept\<close> characters written are in the file, and the
  exception replaces a pending one.
\<close>

definition close_log :: "run_env \<Rightarrow> world \<Rightarrow> outcome \<Rightarrow> outcome" where
  "close_log env w r =
     (let written = drop (length (log_file w)) (log_file (fst r)) in
      if written = [] then r
      else case close_err env of
             None \<Rightarrow> r
           | Some e \<Rightarrow>
               ((fst r)\<lparr>log_file := log_file w @ take (close_kept env) written\<rparr>, Some e))"

text \<open>Lines 100-107, the body of the \<open>try\<close>.\<close>

definition try_block :: "run_env \<Rightarrow> string list \<Rightarrow> world \<Rightarrow> outcome" where
  "try_block env args w =
     (case open_log env of
        Some e \<Rightarrow> (w, Some e)
      | None \<Rightarrow>
          close_log env w
            (case popen env args of
               Inl e \<Rightarrow> (w, Some e)
             | Inr p \<Rightarrow>
                 and_then
                   (read_lines (linesep env) (write_err env) 0 (stdout env) (read_err env)
                      (w\<lparr>current_process := Some p\<rparr>))
                   (\<lambda>w1. (w1, wait_err env))))"

text \<open>Lines 108-109, \<open>except Exception as e: q.put(f"[ERROR] {e}\n")\<close>.\<close>

definition error_line :: "exn \<Rightarrow> string" where
  "error_line e = ''[ERROR] '' @ str_of e @ newline"

definition except_Exception :: "outcome \<Rightarrow> outcome" where
  "except_Exception r =
     (case r of
        (w, Some e) \<Rightarrow> (q_put (error_line e) w, None)
      | (w, None) \<Rightarrow> (w, None))"

text \<open>Lines 112-116, the post-hook: skipped when it is \<open>None\<close> or empty.\<close>

definition run_post_hook :: "run_env \<Rightarrow> string option \<Rightarrow> world \<Rightarrow> outcome" where
  "run_post_hook env post_hook w =
     (case post_hook of
        None \<Rightarrow> (w, None)
      | Some h \<Rightarrow>
          if h = [] then (w, None)
          else swallow (w\<lparr>hooks := hooks w @ [h]\<rparr>, hook_err env))"

text \<open>Lines 118-124, the desktop notification.\<close>

definition notify_message :: "string list \<Rightarrow> string" where
  "notify_message args = (if length args > 1 then args ! 1 else gettext ''Finished'')"

definition notify :: "run_env \<Rightarrow> string list \<Rightarrow> world \<Rightarrow> outcome" where
  "notify env args w =
     swallow
       (w\<lparr>notifications :=
            notifications w @ [(gettext ''Download Complete'', notify_message args)]\<rparr>,
        notify_err env)"

text \<open>Lines 110-124, the \<open>finally\<close> block.\<close>

definition finally_block :: "run_env \<Rightarrow> string list \<Rightarrow> string option \<Rightarrow> world \<Rightarrow> outcome" where
  "finally_block env args post_hook w =
     and_then (run_post_hook env post_hook (w\<lparr>current_process := None\<rparr>)) (notify env args)"

text \<open>
  \<open>_run_yt_dlp\<close>: the \<open>finally\<close> block runs after the \<open>try\<close> and its handler; an
  exception it raised would replace the pending one.
\<close>

definition run_yt_dlp :: "run_env \<Rightarrow> string list \<Rightarrow> string option \<Rightarrow> world \<Rightarrow> outcome" where
  "run_yt_dlp env args post_hook w =
     (case except_Exception (try_block env args w) of
        (w1, r) \<Rightarrow>
          (case finally_block env args post_hook w1 of
             (w2, Some e) \<Rightarrow> (w2, Some e)
           | (w2, None) \<Rightarrow> (w2, r)))"

text \<open>\<open>threaded_yt_dlp\<close>: the worker thread is started, its job recorded.\<close>

definition threaded_yt_dlp :: "string list \<Rightarrow> string option \<Rightarrow> world \<Rightarrow> world" where
  "threaded_yt_dlp args post_hook w = w\<lparr>threads := threads w @ [(args, post_hook)]\<rparr>"

section \<open>The UI pump\<close>

text \<open>
  The calls the pump makes on the log view. Tk ignores an insertion into a disabled
  text widget; every call is recorded in \<open>box_calls\<close>.
\<close>

definition box_configure :: "box_state \<Rightarrow> textbox \<Rightarrow> textbox" where
  "box_configure s b = b\<lparr>box_state := s, box_calls := box_calls b @ [Configure s]\<rparr>"

definition box_insert :: "string \<Rightarrow> textbox \<Rightarrow> textbox" where
  "box_insert line b =
     b\<lparr>box_text := (if box_state b = Normal then box_text b @ line else box_text b),
       box_calls := box_calls b @ [Insert line]\<rparr>"

definition box_see :: "textbox \<Rightarrow> textbox" where
  "box_see b = b\<lparr>box_calls := box_calls b @ [See]\<rparr>"

text \<open>\<open>app.after(ms, callback)\<close> registers a timer and returns its id.\<close>

definition app_after :: "nat \<Rightarrow> callback \<Rightarrow> world \<Rightarrow> nat \<times> world" where
  "app_after ms cb w = (length (timers w), w\<lparr>timers := timers w @ [(ms, cb)]\<rparr>)"

text \<open>Lines 133-138, \<open>while not q.empty(): line = q.get(); ...\<close>.\<close>

function pump_loop :: "world \<Rightarrow> world" where
  "pump_loop w =
     (case q w of
        [] \<Rightarrow> w
      | line # rest \<Rightarrow>
          pump_loop
            (w\<lparr>q := rest,
               output_box :=
                 box_configure Disabled
                   (box_see (box_insert line (box_configure Normal (output_box w))))\<rparr>))"
  by pat_completeness auto
termination
  by (relation "measure (\<lambda>w. length (q w))") auto

definition pump_queue :: "world \<Rightarrow> world" where
  "pump_queue w =
     (case app_after 100 Pump_queue (pump_loop w) of
        (tid, w1) \<Rightarrow> w1\<lparr>pump_id := Some tid\<rparr>)"

section \<open>Preferences\<close>

text \<open>
  A value \<open>json.load\<close> returns; a float carries its literal. The outside world of
  lines 61-65: whether opening \<open>prefs.json\<close> raises, whether reading it raises or
  what text it holds, and what the JSON parser makes of a text.
\<close>

datatype json =
  JNull | JBool bool | JInt int | JFloat string | JString string
  | JArray "json list" | JObject "(string \<times> json) list"

record prefs_env =
  open_prefs :: "exn option"
  read_prefs :: "exn + string"
  json_loads :: "string \<Rightarrow> exn + json"

text \<open>Lines 62-63, the body of the \<open>try\<close>.\<close>

definition json_load :: "prefs_env \<Rightarrow> exn + json" where
  "json_load env =
     (case open_prefs env of
        Some e \<Rightarrow> Inl e
      | None \<Rightarrow> (case read_prefs env of Inl e \<Rightarrow> Inl e | Inr text \<Rightarrow> json_loads env text))"

text \<open>Lines 61-65: the value of \<open>prefs\<close> after startup, or the exception that ends it.\<close>

definition load_prefs :: "prefs_env \<Rightarrow> exn + json" where
  "load_prefs env = (case json_load env of Inl e \<Rightarrow> Inr (JObject []) | Inr v \<Rightarrow> Inr v)"

section \<open>The argument builder\<close>

text \<open>
  The widgets' values when \<open>start_download\<close> runs. \<open>url_text\<close> is the value of
  \<open>url_text.get("1.0", "end")\<close>: what the box shows, followed by the line feed Tk keeps
  after the last line.
\<close>

record form =
  url_text :: string
  folder_entry :: string
  audio_var :: bool
  quality_var :: string
  subs_var :: string
  sponsor_var :: bool
  rate_entry :: string
  proxy_entry :: string
  rename_entry :: string

text \<open>
  The outside world of \<open>start_download\<close>. \<open>cfg_dir_sep\<close> is the configuration
  directory up to and including the separator \<open>os.path.join\<close> puts before a file
  name. For the i-th line of the URL text: what \<open>subprocess.run\<close> does with the probe's
  command line (raise, also on a non-zero exit status, or return the standard
  output), whether a path exists, and the user's answer to the overwrite prompt.
\<close>

record dl_env =
  cfg_dir_sep :: string
  getcwd :: string
  path_join :: "string \<Rightarrow> string \<Rightarrow> string"
  probe :: "nat \<Rightarrow> string list \<Rightarrow> exn + string"
  path_exists :: "nat \<Rightarrow> string \<Rightarrow> bool"
  askyesno :: "nat \<Rightarrow> string \<Rightarrow> string \<Rightarrow> bool"

definition yt_dlp_exe :: "dl_env \<Rightarrow> string" where
  "yt_dlp_exe env = cfg_dir_sep env @ ''yt-dlp.exe''"

definition get_expected_filename :: "dl_env \<Rightarrow> nat \<Rightarrow> string \<Rightarrow> string \<Rightarrow> string option" where
  "get_expected_filename env i url folder =
     (case probe env i [yt_dlp_exe env, ''--no-print-traffic'', ''--print'', ''filename'', url] of
        Inl e \<Rightarrow> None
      | Inr out \<Rightarrow> Some (path_join env folder (strip out)))"

definition ask_overwrite :: "dl_env \<Rightarrow> nat \<Rightarrow> string \<Rightarrow> bool" where
  "ask_overwrite env i path =
     askyesno env i (gettext ''File Exists'')
       (''The file already exists:'' @ newline @ newline @ path @ newline @ newline @ ''Replace it?'')"

text \<open>
  Lines 188-190: the URL is skipped when a file name is expected, that file exists
  and the user declines to replace it.
\<close>

definition skips :: "dl_env \<Rightarrow> nat \<Rightarrow> string \<Rightarrow> string \<Rightarrow> bool" where
  "skips env i url folder =
     (case get_expected_filename env i url folder of
        None \<Rightarrow> False
      | Some expected \<Rightarrow>
          expected \<noteq> [] \<and> path_exists env i expected \<and> \<not> ask_overwrite env i expected)"

text \<open>\<open>qstr.rstrip("p")\<close>.\<close>

definition rstrip_p :: "string \<Rightarrow> string" where
  "rstrip_p s = rev (dropWhile (\<lambda>c. c = CHR ''p'') (rev s))"

text \<open>Lines 194-225, the argument list of one job.\<close>

definition job_args :: "dl_env \<Rightarrow> form \<Rightarrow> string \<Rightarrow> string \<Rightarrow> string list" where
  "job_args env f url folder =
     [yt_dlp_exe env, url, ''-P'', folder]
     @ (if audio_var f then [''-x'', ''--audio-format'', ''mp3'']
        else if quality_var f \<noteq> ''Best''
          then [''-f'', ''bestvideo[height<='' @ rstrip_p (quality_var f) @ '']+bestaudio/best'']
          else [''-f'', ''bv*+ba/best''])
     @ (if subs_var f \<noteq> [] then [''--write-subs'', ''--sub-lang='' @ subs_var f] else [])
     @ (if sponsor_var f then [''--sponsorblock-remove'', ''all''] else [])
     @ (if strip (rate_entry f) \<noteq> [] then [''--limit-rate'', strip (rate_entry f)] else [])
     @ (if strip (proxy_entry f) \<noteq> [] then [''--proxy'', strip (proxy_entry f)] else [])
     @ (if strip (rename_entry f) \<noteq> [] then [''-o'', strip (rename_entry f)] else [])"

text \<open>Lines 184-227, the loop over the lines; \<open>i\<close> is the line's index.\<close>

fun download_loop :: "dl_env \<Rightarrow> form \<Rightarrow> string \<Rightarrow> nat \<Rightarrow> string list \<Rightarrow> world \<Rightarrow> world" where
  "download_loop env f folder i [] w = w"
| "download_loop env f folder i (url # rest) w =
     (if url = [] then download_loop env f folder (Suc i) rest w
      else if skips env i url folder
        then download_loop env f folder (Suc i) rest (q_put (''Skipped '' @ url @ newline) w)
        else download_loop env f folder (Suc i) rest
               (threaded_yt_dlp (job_args env f url folder) None w))"

text \<open>Line 182, \<open>folder_entry.get().strip() or os.getcwd()\<close>.\<close>

definition dest_folder :: "dl_env \<Rightarrow> form \<Rightarrow> string" where
  "dest_folder env f =
     (if strip (folder_entry f) \<noteq> [] then strip (folder_entry f) else getcwd env)"

definition start_download :: "dl_env \<Rightarrow> form \<Rightarrow> world \<Rightarrow> world" where
  "start_download env f w =
     (let urls = splitlines (strip (url_text f));
          folder = dest_folder env f
      in download_loop env f folder 0 urls w)"

text \<open>The argument lists of the threads started between two states.\<close>

definition new_jobs :: "world \<Rightarrow> world \<Rightarrow> string list list" where
  "new_jobs w w' = map fst (drop (length (threads w)) (threads w'))"

section \<open>Sample states\<close>

text \<open>A fresh program state, sample environments and sample form states.\<close>

definition w0 :: world where
  "w0 = \<lparr>q = [], log_file = [], current_process = None, pump_id = None,
          output_box = \<lparr>box_text = [], box_state = Disabled, box_calls = []\<rparr>,
          timers = [], hooks = [], notifications = [], threads = []\<rparr>"

definition env_ok :: run_env where
  "env_ok = \<lparr>open_log = None, popen = (\<lambda>args. Inr 7),
             child_out = ''one'' @ newline @ ''two'' @ newline,
             read_err = None, write_err = (\<lambda>i. None), linesep = newline, close_err = None,
             close_kept = 0, wait_err = None, hook_err = None, notify_err = None\<rparr>"

definition env_no_exe :: run_env where
  "env_no_exe = \<lparr>open_log = None,
      popen = (\<lambda>args. Inl (Exception ''[WinError 2] The system cannot find the file specified'')),
      child_out = [], read_err = None, write_err = (\<lambda>i. None), linesep = newline,
      close_err = None, close_kept = 0, wait_err = None,
      hook_err = None, notify_err = Some (Exception ''No usable implementation found!'')\<rparr>"

definition env_progress :: run_env where
  "env_progress = \<lparr>open_log = None, popen = (\<lambda>args. Inr 7),
             child_out = ''10%'' @ [CHR 0x0D] @ ''100%'' @ newline,
             read_err = None, write_err = (\<lambda>i. None), linesep = newline, close_err = None,
             close_kept = 0, wait_err = None, hook_err = None, notify_err = None\<rparr>"

definition env_disk_full :: run_env where
  "env_disk_full = \<lparr>open_log = None, popen = (\<lambda>args. Inr 7),
             child_out = ''one'' @ newline @ ''two'' @ newline,
             read_err = None, write_err = (\<lambda>i. None), linesep = newline,
             close_err = Some (Exception ''[Errno 28] No space left on device''),
             close_kept = 0, wait_err = None, hook_err = None, notify_err = None\<rparr>"

definition prefs_env_bad :: prefs_env where
  "prefs_env_bad = \<lparr>open_prefs = None, read_prefs = Inr ''{presets: '',
     json_loads = (\<lambda>text. if text = ''{}'' then Inr (JObject [])
                           else Inl (Exception ''Expecting value''))\<rparr>"

definition env_plain :: dl_env where
  "env_plain = \<lparr>cfg_dir_sep = ''/cfg/'', getcwd = ''/home/u'',
     path_join = (\<lambda>a b. a @ ''/'' @ b),
     probe = (\<lambda>i cmd. Inl (Exception ''No such file or directory'')),
     path_exists = (\<lambda>i p. False), askyesno = (\<lambda>i t m. True)\<rparr>"

definition env_decline :: dl_env where
  "env_decline = \<lparr>cfg_dir_sep = ''/cfg/'', getcwd = ''/home/u'',
     path_join = (\<lambda>a b. a @ ''/'' @ b),
     probe = (\<lambda>i cmd. Inr (''v.mp4'' @ newline)),
     path_exists = (\<lambda>i p. i = 0), askyesno = (\<lambda>i t m. False)\<rparr>"

definition env_replace :: dl_env where
  "env_replace = \<lparr>cfg_dir_sep = ''/cfg/'', getcwd = ''/home/u'',
     path_join = (\<lambda>a b. a @ ''/'' @ b),
     probe = (\<lambda>i cmd. Inr (''v.mp4'' @ newline)),
     path_exists = (\<lambda>i p. True), askyesno = (\<lambda>i t m. True)\<rparr>"

definition form_two :: form where
  "form_two = \<lparr>url_text = ''https://a/1'' @ newline @ newline @ ''https://a/2'' @ newline,
     folder_entry = [], audio_var = False, quality_var = ''Best'', subs_var = [],
     sponsor_var = False, rate_entry = [], proxy_entry = [], rename_entry = []\<rparr>"

definition form_audio :: form where
  "form_audio = \<lparr>url_text = ''-f'' @ newline,
     folder_entry = [], audio_var = True, quality_var = ''Best'', subs_var = [],
     sponsor_var = False, rate_entry = [], proxy_entry = [], rename_entry = []\<rparr>"

definition form_song :: form where
  "form_song = \<lparr>url_text = ''https://a/1'' @ newline,
     folder_entry = '' /music '', audio_var = True, quality_var = ''720p'', subs_var = ''en'',
     sponsor_var = True, rate_entry = ''500K'', proxy_entry = [], rename_entry = []\<rparr>"

section \<open>Properties of the job runner\<close>

lemma universal_newlines_plain:
  "CHR 0x0D \<notin> set s \<Longrightarrow> universal_newlines s = s"
  by (induction s rule: universal_newlines.induct) auto

lemma concat_readlines_from:
  "concat (readlines_from cur s) = cur @ s"
  by (induction s arbitrary: cur) simp_all

lemma write_newlines_append:
  "write_newlines sep (a @ b) = write_newlines sep a @ write_newlines sep b"
  by (simp add: write_newlines_def)

lemma write_newlines_concat:
  "concat (map (write_newlines sep) ls) = write_newlines sep (concat ls)"
  by (induction ls) (simp_all add: write_newlines_append, simp add: write_newlines_def)

lemma write_newlines_newline:
  "write_newlines newline s = s"
  by (induction s) (simp_all add: write_newlines_def newline_def)

lemma read_lines_frame:
  "current_process (fst (read_lines sep wr i ls fin w)) = current_process w"
  "notifications (fst (read_lines sep wr i ls fin w)) = notifications w"
  "hooks (fst (read_lines sep wr i ls fin w)) = hooks w"
  "threads (fst (read_lines sep wr i ls fin w)) = threads w"
  "output_box (fst (read_lines sep wr i ls fin w)) = output_box w"
  "timers (fst (read_lines sep wr i ls fin w)) = timers w"
  "pump_id (fst (read_lines sep wr i ls fin w)) = pump_id w"
  by (induction ls arbitrary: i w) (auto simp: q_put_def Let_def split: option.splits)

lemma read_lines_ok:
  "(\<And>j. j < length ls \<Longrightarrow> wr (i + j) = None) \<Longrightarrow>
   read_lines sep wr i ls fin w =
     (w\<lparr>q := q w @ ls, log_file := log_file w @ concat (map (write_newlines sep) ls)\<rparr>, fin)"
proof (induction ls arbitrary: i w)
  case Nil
  then show ?case by simp
next
  case (Cons l ls)
  have "wr i = None" using Cons.prems [of 0] by simp
  moreover have "\<And>j. j < length ls \<Longrightarrow> wr (Suc i + j) = None"
    using Cons.prems [of "Suc j" for j] by simp
  ultimately show ?case
    using Cons.IH [of "Suc i"] by (simp add: q_put_def)
qed

lemma read_lines_q:
  "\<exists>k\<le>length ls. q (fst (read_lines sep wr i ls fin w)) = q w @ take k ls"
proof (induction ls arbitrary: i w)
  case Nil
  then show ?case by simp
next
  case (Cons l ls)
  show ?case
  proof (cases "wr i")
    case (Some e)
    then have "q (fst (read_lines sep wr i (l # ls) fin w)) = q w @ take 1 (l # ls)"
      by (simp add: q_put_def)
    then show ?thesis by (intro exI [of _ 1]) simp
  next
    case None
    let ?w = "(q_put l w)\<lparr>log_file := log_file (q_put l w) @ write_newlines sep l\<rparr>"
    from Cons.IH [of "Suc i" ?w] obtain k where
      k: "k \<le> length ls" "q (fst (read_lines sep wr (Suc i) ls fin ?w)) = q ?w @ take k ls"
      by blast
    with None have "q (fst (read_lines sep wr i (l # ls) fin w)) = q w @ take (Suc k) (l # ls)"
      by (simp add: q_put_def)
    with k(1) show ?thesis by (intro exI [of _ "Suc k"]) simp
  qed
qed

lemma read_lines_raises:
  "snd (read_lines sep wr i ls (Some e) w) \<noteq> None"
  by (induction ls arbitrary: i w) (auto simp: Let_def split: option.splits)

lemma fst_and_then_const:
  "fst (and_then r (\<lambda>w1. (w1, x))) = fst r"
  by (simp add: and_then_def split: prod.splits option.splits)

lemma close_log_frame:
  "q (fst (close_log env w r)) = q (fst r)"
  "current_process (fst (close_log env w r)) = current_process (fst r)"
  "notifications (fst (close_log env w r)) = notifications (fst r)"
  "hooks (fst (close_log env w r)) = hooks (fst r)"
  by (simp_all add: close_log_def Let_def split: option.splits)

lemma close_log_raises:
  "snd r \<noteq> None \<Longrightarrow> snd (close_log env w r) \<noteq> None"
  by (auto simp: close_log_def Let_def split: option.splits)

lemma close_log_nothing_written:
  "log_file (fst r) = log_file w \<Longrightarrow> close_log env w r = r"
  by (simp add: close_log_def)

lemma close_log_ok:
  "close_err env = None \<Longrightarrow> close_log env w r = r"
  by (simp add: close_log_def Let_def)

lemma try_block_frame:
  "notifications (fst (try_block env args w)) = notifications w"
  "hooks (fst (try_block env args w)) = hooks w"
  by (simp_all add: try_block_def close_log_frame fst_and_then_const read_lines_frame
      split: option.splits sum.splits)

lemma try_block_notify_err:
  "try_block (env\<lparr>notify_err := x\<rparr>) args w = try_block env args w"
proof -
  have "close_log (env\<lparr>notify_err := x\<rparr>) = close_log env"
    by (intro ext) (simp add: close_log_def Let_def split: option.splits)
  moreover have "stdout (env\<lparr>notify_err := x\<rparr>) = stdout env"
    by (simp add: stdout_def)
  ultimately show ?thesis
    by (simp add: try_block_def split: option.splits sum.splits)
qed

lemma finally_block_result:
  "snd (finally_block env args post_hook w) = None"
  "current_process (fst (finally_block env args post_hook w)) = None"
  "q (fst (finally_block env args post_hook w)) = q w"
  "log_file (fst (finally_block env args post_hook w)) = log_file w"
  "notifications (fst (finally_block env args post_hook w)) =
     notifications w @ [(''Download Complete'', notify_message args)]"
  by (auto simp: finally_block_def run_post_hook_def notify_def swallow_def and_then_def gettext_def
      split: option.splits)

lemma snd_except_Exception:
  "snd (except_Exception r) = None"
  by (simp add: except_Exception_def split: prod.splits option.splits)

lemma run_yt_dlp_eq:
  "run_yt_dlp env args post_hook w =
     (fst (finally_block env args post_hook (fst (except_Exception (try_block env args w)))), None)"
proof -
  obtain w1 r where a: "except_Exception (try_block env args w) = (w1, r)"
    by (cases "except_Exception (try_block env args w)")
  then have r: "r = None"
    using snd_except_Exception [of "try_block env args w"] by simp
  obtain w2 r2 where b: "finally_block env args post_hook w1 = (w2, r2)"
    by (cases "finally_block env args post_hook w1")
  then have "r2 = None"
    using finally_block_result(1) [of env args post_hook w1] by simp
  with a b r show ?thesis
    by (simp add: run_yt_dlp_def)
qed

lemma run_yt_dlp_fst:
  "fst (run_yt_dlp env args post_hook w) =
     fst (finally_block env args post_hook (fst (except_Exception (try_block env args w))))"
  by (simp add: run_yt_dlp_eq)

text \<open>
  C1, as the code has it. When the log opens, the child process is spawned, and
  neither reading its output, writing or flushing the log nor waiting for the child
  raises, the runner appends to the Line Queue, in order, exactly the lines the text
  stream yields, which are the lines of the child's output after every carriage
  return followed by a line feed, and every carriage return alone, has become one
  line feed; and it appends to the activity log the concatenation of those lines, each
  line feed written as \<open>os.linesep\<close>. When the child's output has no carriage return,
  the queue gains exactly the lines the child wrote, and when \<open>os.linesep\<close> is the
  line feed as well, the log gains exactly the child's output.
\<close>

theorem run_yt_dlp_lines:
  assumes "open_log env = None" and "popen env args = Inr p"
    and "read_err env = None" and "\<forall>i<length (stdout env). write_err env i = None"
    and "close_err env = None" and "wait_err env = None"
  shows "q (fst (run_yt_dlp env args post_hook w)) =
           q w @ readlines (universal_newlines (child_out env)) \<and>
         log_file (fst (run_yt_dlp env args post_hook w)) =
           log_file w @ write_newlines (linesep env) (universal_newlines (child_out env)) \<and>
         (CHR 0x0D \<notin> set (child_out env) \<longrightarrow>
            q (fst (run_yt_dlp env args post_hook w)) = q w @ readlines (child_out env)) \<and>
         (CHR 0x0D \<notin> set (child_out env) \<and> linesep env = newline \<longrightarrow>
            log_file (fst (run_yt_dlp env args post_hook w)) = log_file w @ child_out env)"
proof -
  let ?u = "universal_newlines (child_out env)"
  have c: "concat (stdout env) = ?u"
    by (simp add: stdout_def readlines_def concat_readlines_from)
  have "read_lines (linesep env) (write_err env) 0 (stdout env) (read_err env)
          (w\<lparr>current_process := Some p\<rparr>) =
        (w\<lparr>current_process := Some p, q := q w @ stdout env,
           log_file := log_file w @ write_newlines (linesep env) ?u\<rparr>, None)"
    using assms(3,4) by (simp add: read_lines_ok write_newlines_concat c)
  then have "try_block env args w =
          (w\<lparr>current_process := Some p, q := q w @ stdout env,
             log_file := log_file w @ write_newlines (linesep env) ?u\<rparr>, None)"
    using assms(1,2,5,6) by (simp add: try_block_def and_then_def close_log_ok)
  then have r: "q (fst (run_yt_dlp env args post_hook w)) = q w @ readlines ?u"
    "log_file (fst (run_yt_dlp env args post_hook w)) =
       log_file w @ write_newlines (linesep env) ?u"
    by (simp_all add: run_yt_dlp_fst except_Exception_def finally_block_result stdout_def)
  show ?thesis
    using r by (simp add: universal_newlines_plain write_newlines_newline)
qed

lemma run_ok:
  "run_yt_dlp env_ok [''yt-dlp.exe'', ''-U''] None w0 =
     (w0\<lparr>q := [''one'' @ newline, ''two'' @ newline],
         log_file := ''one'' @ newline @ ''two'' @ newline,
         notifications := [(''Download Complete'', ''-U'')]\<rparr>, None)"
  by code_simp

theorem run_yt_dlp_lines_witness:
  "q (fst (run_yt_dlp env_ok [''yt-dlp.exe'', ''-U''] None w0)) =
     readlines (child_out env_ok) \<and>
   readlines (child_out env_ok) = [''one'' @ newline, ''two'' @ newline] \<and>
   log_file (fst (run_yt_dlp env_ok [''yt-dlp.exe'', ''-U''] None w0)) = child_out env_ok"
proof -
  have h: "open_log env_ok = None" "popen env_ok [''yt-dlp.exe'', ''-U''] = Inr 7"
    "read_err env_ok = None" "\<forall>i<length (stdout env_ok). write_err env_ok i = None"
    "close_err env_ok = None" "wait_err env_ok = None"
    by (simp_all add: env_ok_def)
  have n: "CHR 0x0D \<notin> set (child_out env_ok)" "linesep env_ok = newline"
    by (simp_all add: env_ok_def newline_def)
  have l: "readlines (child_out env_ok) = [''one'' @ newline, ''two'' @ newline]"
    by (simp add: env_ok_def readlines_def newline_def)
  have w: "q w0 = []" "log_file w0 = []"
    by (simp_all add: w0_def)
  note t = run_yt_dlp_lines [OF h, of None w0]
  from t n have "q (fst (run_yt_dlp env_ok [''yt-dlp.exe'', ''-U''] None w0)) =
      q w0 @ readlines (child_out env_ok)"
    by blast
  moreover from t n have "log_file (fst (run_yt_dlp env_ok [''yt-dlp.exe'', ''-U''] None w0)) =
      log_file w0 @ child_out env_ok"
    by blast
  ultimately show ?thesis
    using l w by simp
qed

lemma run_progress:
  "run_yt_dlp env_progress [''yt-dlp.exe'', ''-U''] None w0 =
     (w0\<lparr>q := [''10%'' @ newline, ''100%'' @ newline],
         log_file := ''10%'' @ newline @ ''100%'' @ newline,
         notifications := [(''Download Complete'', ''-U'')]\<rparr>, None)"
  by code_simp

lemma run_disk_full:
  "run_yt_dlp env_disk_full [''yt-dlp.exe'', ''-U''] None w0 =
     (w0\<lparr>q := [''one'' @ newline, ''two'' @ newline,
               ''[ERROR] [Errno 28] No space left on device'' @ newline],
         notifications := [(''Download Complete'', ''-U'')]\<rparr>, None)"
  by code_simp

text \<open>
  A child that writes one line holding a carriage return, as a progress display does:
  two lines reach the queue, neither of them the line written. And a child that
  writes two lines while the disk is full: the flush fails when the log is closed, a
  third line reaches the queue and none reaches the log.
\<close>

theorem run_yt_dlp_lines_counterexample:
  "readlines (child_out env_progress) = [''10%'' @ [CHR 0x0D] @ ''100%'' @ newline] \<and>
   q (fst (run_yt_dlp env_progress [''yt-dlp.exe'', ''-U''] None w0)) =
     [''10%'' @ newline, ''100%'' @ newline] \<and>
   log_file (fst (run_yt_dlp env_progress [''yt-dlp.exe'', ''-U''] None w0)) \<noteq>
     child_out env_progress \<and>
   readlines (child_out env_disk_full) = [''one'' @ newline, ''two'' @ newline] \<and>
   q (fst (run_yt_dlp env_disk_full [''yt-dlp.exe'', ''-U''] None w0)) =
     [''one'' @ newline, ''two'' @ newline,
      ''[ERROR] [Errno 28] No space left on device'' @ newline] \<and>
   log_file (fst (run_yt_dlp env_disk_full [''yt-dlp.exe'', ''-U''] None w0)) = []"
  by (simp add: run_progress run_disk_full)
     (simp add: env_progress_def env_disk_full_def readlines_def newline_def w0_def)

lemma try_block_spawn_fails:
  "open_log env = None \<Longrightarrow> popen env args = Inl e \<Longrightarrow> try_block env args w = (w, Some e)"
  by (simp add: try_block_def close_log_nothing_written)

lemma try_block_read_fails:
  assumes "open_log env = None" and "popen env args = Inr p" and "read_err env = Some e"
  shows "\<exists>k\<le>length (stdout env). \<exists>w1 e1. try_block env args w = (w1, Some e1) \<and>
           q w1 = q w @ take k (stdout env)"
proof -
  let ?r = "read_lines (linesep env) (write_err env) 0 (stdout env) (read_err env)
              (w\<lparr>current_process := Some p\<rparr>)"
  let ?b = "and_then ?r (\<lambda>w1. (w1, wait_err env))"
  have "snd ?r \<noteq> None"
    using assms(3)
      read_lines_raises [of "linesep env" "write_err env" 0 "stdout env" e
        "w\<lparr>current_process := Some p\<rparr>"]
    by simp
  then have b: "snd ?b \<noteq> None" "fst ?b = fst ?r"
    by (auto simp: and_then_def split: prod.splits option.splits)
  obtain k where k: "k \<le> length (stdout env)" "q (fst ?r) = q w @ take k (stdout env)"
    using read_lines_q [of "stdout env" "linesep env" "write_err env" 0 "read_err env"
        "w\<lparr>current_process := Some p\<rparr>"]
    by auto
  have t: "try_block env args w = close_log env w ?b"
    using assms(1,2) by (simp add: try_block_def)
  have "snd (try_block env args w) \<noteq> None"
    using t b(1) close_log_raises by simp
  then obtain w1 e1 where "try_block env args w = (w1, Some e1)"
    by (cases "try_block env args w") auto
  moreover from this have "q w1 = q w @ take k (stdout env)"
    using t b(2) k(2) close_log_frame(1) [of env w ?b] by simp
  ultimately show ?thesis using k(1) by blast
qed

text \<open>
  C2. When spawning the child process raises, or reading its output does, the runner returns without an exception, the shared process handle is \<open>None\<close> afterwards, and exactly one line with the marker \<open>[ERROR]\<close> has been put on the Line Queue: after a failed spawn it is the only line added, after a failed read it follows the lines read before the failure.
\<close>

theorem run_yt_dlp_exception:
  assumes "open_log env = None"
    and "(\<exists>e. popen env args = Inl e) \<or> (\<exists>p e. popen env args = Inr p \<and> read_err env = Some e)"
  shows "snd (run_yt_dlp env args post_hook w) = None \<and>
         current_process (fst (run_yt_dlp env args post_hook w)) = None \<and>
         (case popen env args of
            Inl e \<Rightarrow> q (fst (run_yt_dlp env args post_hook w)) =
                       q w @ [''[ERROR] '' @ str_of e @ newline]
          | Inr p \<Rightarrow> \<exists>k\<le>length (stdout env). \<exists>e.
                       q (fst (run_yt_dlp env args post_hook w)) =
                       q w @ take k (stdout env) @ [''[ERROR] '' @ str_of e @ newline])"
proof (intro conjI)
  show "snd (run_yt_dlp env args post_hook w) = None"
    by (simp add: run_yt_dlp_eq)
  show "current_process (fst (run_yt_dlp env args post_hook w)) = None"
    by (simp add: run_yt_dlp_eq finally_block_result)
  show "case popen env args of
            Inl e \<Rightarrow> q (fst (run_yt_dlp env args post_hook w)) =
                       q w @ [''[ERROR] '' @ str_of e @ newline]
          | Inr p \<Rightarrow> \<exists>k\<le>length (stdout env). \<exists>e.
                       q (fst (run_yt_dlp env args post_hook w)) =
                       q w @ take k (stdout env) @ [''[ERROR] '' @ str_of e @ newline]"
  proof (cases "popen env args")
    case (Inl e)
    with assms(1) show ?thesis
      by (simp add: run_yt_dlp_eq try_block_spawn_fails except_Exception_def q_put_def
          error_line_def finally_block_result)
  next
    case (Inr p)
    with assms(2) obtain e where "read_err env = Some e" by auto
    from try_block_read_fails [OF assms(1) Inr this, of w]
    obtain k w1 e1 where k: "k \<le> length (stdout env)"
      and t: "try_block env args w = (w1, Some e1)" and qw: "q w1 = q w @ take k (stdout env)"
      by blast
    have "q (fst (run_yt_dlp env args post_hook w)) =
            q w @ take k (stdout env) @ [''[ERROR] '' @ str_of e1 @ newline]"
      using t qw
      by (simp add: run_yt_dlp_eq except_Exception_def q_put_def error_line_def finally_block_result)
    with k Inr show ?thesis by auto
  qed
qed

theorem run_yt_dlp_exception_witness:
  "snd (run_yt_dlp env_no_exe [''yt-dlp.exe'', ''https://example.org/v''] None w0) = None \<and>
   current_process (fst (run_yt_dlp env_no_exe [''yt-dlp.exe'', ''https://example.org/v''] None w0)) = None \<and>
   q (fst (run_yt_dlp env_no_exe [''yt-dlp.exe'', ''https://example.org/v''] None w0)) =
     [''[ERROR] [WinError 2] The system cannot find the file specified'' @ newline]"
  using run_yt_dlp_exception [of env_no_exe "[''yt-dlp.exe'', ''https://example.org/v'']" None w0]
  by (simp add: env_no_exe_def w0_def)

text \<open>
  C6. For an argument list of at least two elements the runner calls the notification once, with the title \<open>Download Complete\<close> and the element at index 1 as its message, and an exception raised by the delivery changes nothing of the runner's outcome.
\<close>

theorem notify_names_primary_argument:
  assumes "2 \<le> length args"
  shows "notifications (fst (run_yt_dlp env args post_hook w)) =
           notifications w @ [(''Download Complete'', args ! 1)] \<and>
         run_yt_dlp (env\<lparr>notify_err := Some e\<rparr>) args post_hook w =
           run_yt_dlp (env\<lparr>notify_err := None\<rparr>) args post_hook w"
proof
  have "notifications (fst (except_Exception (try_block env args w))) = notifications w"
    by (cases "try_block env args w"; cases "snd (try_block env args w)")
       (use try_block_frame(1) [of env args w] in
         \<open>auto simp: except_Exception_def q_put_def\<close>)
  with assms show "notifications (fst (run_yt_dlp env args post_hook w)) =
           notifications w @ [(''Download Complete'', args ! 1)]"
    by (simp add: run_yt_dlp_eq finally_block_result notify_message_def)
  show "run_yt_dlp (env\<lparr>notify_err := Some e\<rparr>) args post_hook w =
           run_yt_dlp (env\<lparr>notify_err := None\<rparr>) args post_hook w"
    by (simp add: run_yt_dlp_eq try_block_notify_err finally_block_def run_post_hook_def
        notify_def swallow_def and_then_def split: option.splits)
qed

theorem notify_names_primary_argument_witness:
  "notifications (fst (run_yt_dlp env_no_exe [''yt-dlp.exe'', ''https://example.org/v''] None w0)) =
     [(''Download Complete'', ''https://example.org/v'')] \<and>
   run_yt_dlp (env_no_exe\<lparr>notify_err := Some (Exception ''dbus'')\<rparr>)
       [''yt-dlp.exe'', ''https://example.org/v''] None w0 =
     run_yt_dlp (env_no_exe\<lparr>notify_err := None\<rparr>) [''yt-dlp.exe'', ''https://example.org/v''] None w0"
  using notify_names_primary_argument
    [of "[''yt-dlp.exe'', ''https://example.org/v'']" env_no_exe None w0 "Exception ''dbus''"]
  by (simp add: w0_def)

text \<open>
  C9. In every call of the runner, whatever the outside world does (a failing spawn included), the cleanup path calls the notification exactly once, with the title \<open>Download Complete\<close>.
\<close>

theorem notification_always_attempted:
  "notifications (fst (run_yt_dlp env args post_hook w)) =
     notifications w @ [(''Download Complete'', notify_message args)]"
proof -
  have "notifications (fst (except_Exception (try_block env args w))) = notifications w"
    by (cases "try_block env args w"; cases "snd (try_block env args w)")
       (use try_block_frame(1) [of env args w] in
         \<open>auto simp: except_Exception_def q_put_def\<close>)
  then show ?thesis
    by (simp add: run_yt_dlp_eq finally_block_result)
qed

text \<open>
  C10. After every call of the runner, on the normal path and on every failing one, the shared process handle is \<open>None\<close>.
\<close>

theorem current_process_reset:
  "current_process (fst (run_yt_dlp env args post_hook w)) = None"
  by (simp add: run_yt_dlp_eq finally_block_result)

section \<open>Properties of the UI pump\<close>

text \<open>
  C8. Called with an empty Line Queue, the pump leaves the log view as it is (no call
  is made on it: no insertion, no scrolling, no change of state) and changes nothing
  but the timer table, where it registers itself again after 100 ms, and its timer id.
\<close>

theorem pump_queue_empty:
  assumes "q w = []"
  shows "pump_queue w = w\<lparr>timers := timers w @ [(100, Pump_queue)],
                          pump_id := Some (length (timers w))\<rparr> \<and>
         output_box (pump_queue w) = output_box w \<and> q (pump_queue w) = []"
  using assms by (simp add: pump_queue_def app_after_def)

theorem pump_queue_empty_witness:
  "pump_queue w0 = w0\<lparr>timers := [(100, Pump_queue)], pump_id := Some 0\<rparr> \<and>
   output_box (pump_queue w0) = \<lparr>box_text = [], box_state = Disabled, box_calls = []\<rparr> \<and>
   q (pump_queue w0) = []"
  using pump_queue_empty [of w0] by (simp add: w0_def)

section \<open>Properties of the preferences\<close>

text \<open>
  C7. When opening the preferences file raises, or reading it does, or its text is
  not JSON, startup does not fail: \<open>prefs\<close> is the empty dictionary.
\<close>

theorem load_prefs_failure:
  assumes "(\<exists>e. open_prefs env = Some e) \<or> (\<exists>e. read_prefs env = Inl e) \<or>
           (\<exists>text e. read_prefs env = Inr text \<and> json_loads env text = Inl e)"
  shows "load_prefs env = Inr (JObject [])"
  using assms by (auto simp: load_prefs_def json_load_def split: option.splits sum.splits)

theorem load_prefs_failure_witness:
  "load_prefs prefs_env_bad = Inr (JObject [])"
  using load_prefs_failure [of prefs_env_bad] by (simp add: prefs_env_bad_def)

section \<open>Properties of the argument builder\<close>

lemma download_loop_threads:
  "threads (download_loop env f folder i urls w) =
     threads w @ map (\<lambda>(j, u). (job_args env f u folder, None))
       (filter (\<lambda>(j, u). u \<noteq> [] \<and> \<not> skips env j u folder) (enumerate i urls))"
  by (induction urls arbitrary: i w) (simp_all add: q_put_def threaded_yt_dlp_def)

lemma new_jobs_download_loop:
  "new_jobs w (download_loop env f folder i urls w) =
     map (\<lambda>(j, u). job_args env f u folder)
       (filter (\<lambda>(j, u). u \<noteq> [] \<and> \<not> skips env j u folder) (enumerate i urls))"
  by (simp add: new_jobs_def download_loop_threads split_def comp_def)

lemma download_loop_q:
  "q (download_loop env f folder i urls w) =
     q w @ map (\<lambda>(j, u). ''Skipped '' @ u @ newline)
       (filter (\<lambda>(j, u). u \<noteq> [] \<and> skips env j u folder) (enumerate i urls))"
  by (induction urls arbitrary: i w) (simp_all add: q_put_def threaded_yt_dlp_def)

lemma new_jobs_start_download:
  "new_jobs w (start_download env f w) =
     map (\<lambda>(j, u). job_args env f u (dest_folder env f))
       (filter (\<lambda>(j, u). u \<noteq> [] \<and> \<not> skips env j u (dest_folder env f))
          (enumerate 0 (splitlines (strip (url_text f)))))"
  by (simp add: start_download_def new_jobs_download_loop)

lemma q_start_download:
  "q (start_download env f w) =
     q w @ map (\<lambda>(j, u). ''Skipped '' @ u @ newline)
       (filter (\<lambda>(j, u). u \<noteq> [] \<and> skips env j u (dest_folder env f))
          (enumerate 0 (splitlines (strip (url_text f)))))"
  by (simp add: start_download_def download_loop_q)

lemma is_linebreak_isspace: "is_linebreak c \<Longrightarrow> isspace c"
  by (auto simp: is_linebreak_def isspace_def)

lemma splitlines_from_plain:
  "\<forall>c\<in>set u. \<not> is_linebreak c \<Longrightarrow> splitlines_from cur (u @ rest) = splitlines_from (cur @ u) rest"
  by (induction u arbitrary: cur) simp_all

lemma isspace_newline: "isspace (CHR 0x0A)" "is_linebreak (CHR 0x0A)"
  by (simp_all add: isspace_def is_linebreak_def)

lemma dropWhile_hd:
  "xs \<noteq> [] \<Longrightarrow> \<not> P (hd xs) \<Longrightarrow> dropWhile P xs = xs"
  by (cases xs) simp_all

lemma strip_trailing:
  assumes "s \<noteq> []" and "\<not> isspace (hd s)" and "\<not> isspace (last s)"
    and "\<forall>c\<in>set t. isspace c"
  shows "strip (s @ t) = s"
proof -
  have a: "dropWhile isspace (s @ t) = s @ t"
    using assms(1,2) by (intro dropWhile_hd) simp_all
  have "dropWhile isspace (rev t @ rev s) = dropWhile isspace (rev s)"
    using assms(4) by (intro dropWhile_append2) simp
  also have "\<dots> = rev s"
    using assms(1,3) by (intro dropWhile_hd) (simp_all add: hd_rev)
  finally show ?thesis
    using a by (simp add: strip_def)
qed

lemma splitlines_two_urls:
  assumes "u1 \<noteq> []" and "u2 \<noteq> []" and "\<forall>c\<in>set (u1 @ u2). \<not> isspace c"
  shows "splitlines (strip (u1 @ newline @ newline @ u2 @ newline)) = [u1, [], u2]"
proof -
  let ?s = "u1 @ newline @ newline @ u2"
  have nl: "\<forall>c\<in>set u1. \<not> is_linebreak c" "\<forall>c\<in>set u2. \<not> is_linebreak c"
    using assms(3) is_linebreak_isspace by auto
  have "hd ?s = hd u1" "last ?s = last u2" using assms(1,2) by (simp_all add: newline_def)
  moreover have "hd u1 \<in> set u1" "last u2 \<in> set u2" using assms(1,2) by simp_all
  moreover have "\<forall>c\<in>set newline. isspace c"
    by (simp add: newline_def isspace_newline)
  ultimately have "strip (?s @ newline) = ?s"
    using assms by (intro strip_trailing) auto
  then have s: "strip (u1 @ newline @ newline @ u2 @ newline) = ?s"
    by simp
  have "splitlines_from [] ?s = [u1, [], u2]"
  proof -
    have "splitlines_from [] ?s = splitlines_from u1 (newline @ newline @ u2)"
      using splitlines_from_plain [OF nl(1), of "[]"] by simp
    also have "\<dots> = u1 # [] # splitlines_from [] u2"
      using assms(2) by (cases u2) (simp_all add: newline_def isspace_newline)
    also have "splitlines_from [] u2 = [u2]"
      using splitlines_from_plain [OF nl(2), of "[]" "[]"] assms(2) by simp
    finally show ?thesis .
  qed
  with s show ?thesis by (simp add: splitlines_def)
qed

lemma yt_dlp_exe_not_f: "yt_dlp_exe env \<noteq> ''-f''"
proof
  assume "yt_dlp_exe env = ''-f''"
  then have "length (yt_dlp_exe env) = length ''-f''" by (rule arg_cong)
  then show False by (simp add: yt_dlp_exe_def)
qed

lemma job_args_audio:
  assumes "audio_var f"
  shows "take 3 (drop 4 (job_args env f u d)) = [''-x'', ''--audio-format'', ''mp3'']"
    and "job_args env f u d ! 1 = u" and "job_args env f u d ! 3 = d"
    and "(''-f'' \<in> set (job_args env f u d)) =
         (u = ''-f'' \<or> d = ''-f'' \<or> strip (rate_entry f) = ''-f'' \<or>
          strip (proxy_entry f) = ''-f'' \<or> strip (rename_entry f) = ''-f'')"
  using assms yt_dlp_exe_not_f [of env] by (auto simp: job_args_def)

text \<open>
  C3, as the code has it. With the audio-only flag set, every argument list built
  carries \<open>-x\<close>, \<open>--audio-format\<close>, \<open>mp3\<close> right after the folder, its element at index 1 is
  a line of the URL text and its element at index 3 the destination folder, and the
  builder adds no \<open>-f\<close> of its own: \<open>-f\<close> is an element of the list exactly when the URL
  line, the folder, or the stripped rate limit, proxy or filename template is itself
  the text \<open>-f\<close>.
\<close>

theorem audio_only_args:
  assumes "audio_var f" and "args \<in> set (new_jobs w (start_download env f w))"
  shows "take 3 (drop 4 args) = [''-x'', ''--audio-format'', ''mp3''] \<and>
         args ! 1 \<in> set (splitlines (strip (url_text f))) \<and>
         args ! 3 = dest_folder env f \<and>
         (''-f'' \<in> set args) =
           (args ! 1 = ''-f'' \<or> args ! 3 = ''-f'' \<or> strip (rate_entry f) = ''-f'' \<or>
            strip (proxy_entry f) = ''-f'' \<or> strip (rename_entry f) = ''-f'')"
proof -
  from assms(2) obtain j u where
    ju: "(j, u) \<in> set (enumerate 0 (splitlines (strip (url_text f))))"
    and args: "args = job_args env f u (dest_folder env f)"
    by (auto simp: new_jobs_start_download)
  from ju have "u \<in> set (splitlines (strip (url_text f)))"
    by (auto simp: in_set_enumerate_eq)
  then show ?thesis
    using job_args_audio [OF assms(1), of env u "dest_folder env f"] args by simp
qed

lemma jobs_song:
  "new_jobs w0 (start_download env_plain form_song w0) =
     [[''/cfg/yt-dlp.exe'', ''https://a/1'', ''-P'', ''/music'', ''-x'', ''--audio-format'', ''mp3'',
       ''--write-subs'', ''--sub-lang=en'', ''--sponsorblock-remove'', ''all'',
       ''--limit-rate'', ''500K'']]"
  by code_simp

theorem audio_only_args_witness:
  "audio_var form_song \<and>
   new_jobs w0 (start_download env_plain form_song w0) =
     [[''/cfg/yt-dlp.exe'', ''https://a/1'', ''-P'', ''/music'', ''-x'', ''--audio-format'', ''mp3'',
       ''--write-subs'', ''--sub-lang=en'', ''--sponsorblock-remove'', ''all'',
       ''--limit-rate'', ''500K'']] \<and>
   take 3 (drop 4 (hd (new_jobs w0 (start_download env_plain form_song w0)))) =
     [''-x'', ''--audio-format'', ''mp3''] \<and>
   ''-f'' \<notin> set (hd (new_jobs w0 (start_download env_plain form_song w0)))"
proof -
  let ?jobs = "new_jobs w0 (start_download env_plain form_song w0)"
  have a: "audio_var form_song" by (simp add: form_song_def)
  have m: "hd ?jobs \<in> set ?jobs" by (simp add: jobs_song)
  have "take 3 (drop 4 (hd ?jobs)) = [''-x'', ''--audio-format'', ''mp3'']"
    using audio_only_args [OF a m] by blast
  moreover have "''-f'' \<notin> set (hd ?jobs)" by (simp add: jobs_song)
  ultimately show ?thesis using a jobs_song by blast
qed

lemma jobs_audio:
  "new_jobs w0 (start_download env_plain form_audio w0) =
     [[''/cfg/yt-dlp.exe'', ''-f'', ''-P'', ''/home/u'', ''-x'', ''--audio-format'', ''mp3'']]"
  by code_simp

text \<open>
  With the audio-only flag set and \<open>-f\<close> typed as the URL, the list built contains \<open>-f\<close>.
\<close>

theorem audio_only_args_counterexample:
  "audio_var form_audio \<and>
   new_jobs w0 (start_download env_plain form_audio w0) =
     [[''/cfg/yt-dlp.exe'', ''-f'', ''-P'', ''/home/u'', ''-x'', ''--audio-format'', ''mp3'']] \<and>
   ''-f'' \<in> set (hd (new_jobs w0 (start_download env_plain form_audio w0)))"
  by (simp add: jobs_audio) (simp add: form_audio_def)

lemma jobs_two_plain:
  "new_jobs w0 (start_download env_plain form_two w0) =
     [[''/cfg/yt-dlp.exe'', ''https://a/1'', ''-P'', ''/home/u'', ''-f'', ''bv*+ba/best''],
      [''/cfg/yt-dlp.exe'', ''https://a/2'', ''-P'', ''/home/u'', ''-f'', ''bv*+ba/best'']]"
  by code_simp

lemma jobs_two_decline:
  "new_jobs w0 (start_download env_decline form_two w0) =
     [[''/cfg/yt-dlp.exe'', ''https://a/2'', ''-P'', ''/home/u'', ''-f'', ''bv*+ba/best'']]"
  by code_simp

lemma q_two_decline:
  "q (start_download env_decline form_two w0) = [''Skipped https://a/1'' @ newline]"
  by code_simp

text \<open>
  C4, as the code has it. For a URL text of two URLs (non-empty, free of white space)
  with one blank line between them, read from the box with the line feed Tk keeps
  after the last line, a job is built for each URL that the overwrite
  check does not skip, in the order of the text, so exactly two jobs when neither is
  skipped; a skipped URL puts one \<open>Skipped\<close> line on the queue instead, and the blank
  line yields neither a job nor a line.
\<close>

theorem two_urls_jobs:
  assumes "u1 \<noteq> []" and "u2 \<noteq> []" and "\<forall>c\<in>set (u1 @ u2). \<not> isspace c"
    and "url_text f = u1 @ newline @ newline @ u2 @ newline"
  shows "new_jobs w (start_download env f w) =
           (if skips env 0 u1 (dest_folder env f) then []
            else [job_args env f u1 (dest_folder env f)]) @
           (if skips env 2 u2 (dest_folder env f) then []
            else [job_args env f u2 (dest_folder env f)]) \<and>
         q (start_download env f w) =
           q w @
           (if skips env 0 u1 (dest_folder env f) then [''Skipped '' @ u1 @ newline] else []) @
           (if skips env 2 u2 (dest_folder env f) then [''Skipped '' @ u2 @ newline] else [])"
proof -
  have "splitlines (strip (url_text f)) = [u1, [], u2]"
    using splitlines_two_urls [OF assms(1-3)] assms(4) by simp
  then have e: "enumerate 0 (splitlines (strip (url_text f))) = [(0, u1), (1, []), (2, u2)]"
    by (simp add: numeral_2_eq_2)
  show ?thesis
    using assms(1,2) by (simp add: new_jobs_start_download q_start_download e)
qed

theorem two_urls_jobs_witness:
  "new_jobs w0 (start_download env_plain form_two w0) =
     [job_args env_plain form_two ''https://a/1'' ''/home/u'',
      job_args env_plain form_two ''https://a/2'' ''/home/u''] \<and>
   q (start_download env_plain form_two w0) = []"
proof -
  have u: "''https://a/1'' \<noteq> []" "''https://a/2'' \<noteq> []"
    "\<forall>c\<in>set (''https://a/1'' @ ''https://a/2''). \<not> isspace c"
    "url_text form_two = ''https://a/1'' @ newline @ newline @ ''https://a/2'' @ newline"
    by (simp_all add: isspace_def form_two_def)
  have d: "dest_folder env_plain form_two = ''/home/u''"
    by (simp add: dest_folder_def form_two_def env_plain_def strip_def)
  have s: "\<not> skips env_plain i u d" for i u d
    by (simp add: skips_def get_expected_filename_def env_plain_def)
  show ?thesis
    using two_urls_jobs [OF u, of w0 env_plain] by (simp add: d s) (simp add: w0_def)
qed

text \<open>
  Two URLs with a blank line between them, the first one's file exists and the user
  declines to replace it: one job is built, not two.
\<close>

theorem two_urls_jobs_counterexample:
  "url_text form_two = ''https://a/1'' @ newline @ newline @ ''https://a/2'' @ newline \<and>
   new_jobs w0 (start_download env_decline form_two w0) =
     [[''/cfg/yt-dlp.exe'', ''https://a/2'', ''-P'', ''/home/u'', ''-f'', ''bv*+ba/best'']] \<and>
   length (new_jobs w0 (start_download env_decline form_two w0)) = 1"
  by (simp add: jobs_two_decline) (simp add: form_two_def)

lemma job_args_env:
  "cfg_dir_sep env = cfg_dir_sep env' \<Longrightarrow> job_args env f u d = job_args env' f u d"
  by (simp add: job_args_def yt_dlp_exe_def)

text \<open>
  C5, as the code has it. Two runs with the same form state build the same argument
  lists when they also agree on the executable's path, on the destination folder (the
  folder field, or the working directory when the field is blank) and on which URLs
  the overwrite check skips; the program states the runs start from do not matter.
\<close>

theorem same_form_same_jobs:
  assumes "cfg_dir_sep env = cfg_dir_sep env'"
    and "dest_folder env f = dest_folder env' f"
    and "\<forall>i u. skips env i u (dest_folder env f) = skips env' i u (dest_folder env' f)"
  shows "new_jobs w (start_download env f w) = new_jobs w' (start_download env' f w')"
proof -
  have "job_args env f u (dest_folder env f) = job_args env' f u (dest_folder env' f)" for u
    using assms(1,2) job_args_env [of env env'] by simp
  moreover have "skips env i u (dest_folder env f) = skips env' i u (dest_folder env' f)" for i u
    using assms(3) by blast
  ultimately show ?thesis
    by (simp add: new_jobs_start_download)
qed

theorem same_form_same_jobs_witness:
  "new_jobs w0 (start_download env_plain form_two w0) =
   new_jobs (w0\<lparr>q := [''line'']\<rparr>) (start_download env_replace form_two (w0\<lparr>q := [''line'']\<rparr>))"
proof -
  have c: "cfg_dir_sep env_plain = cfg_dir_sep env_replace"
    by (simp add: env_plain_def env_replace_def)
  have d: "dest_folder env_plain form_two = dest_folder env_replace form_two"
    by (simp add: dest_folder_def env_plain_def env_replace_def)
  have s: "\<forall>i u. skips env_plain i u (dest_folder env_plain form_two) =
                 skips env_replace i u (dest_folder env_replace form_two)"
    by (simp add: skips_def get_expected_filename_def ask_overwrite_def env_plain_def
        env_replace_def)
  show ?thesis
    using same_form_same_jobs [OF c d s] .
qed

text \<open>
  The same form state in two environments: the lists built differ, and building has
  put a line on the Line Queue.
\<close>

theorem same_form_same_jobs_counterexample:
  "new_jobs w0 (start_download env_plain form_two w0) \<noteq>
     new_jobs w0 (start_download env_decline form_two w0) \<and>
   q (start_download env_decline form_two w0) \<noteq> q w0"
  by (simp add: jobs_two_plain jobs_two_decline q_two_decline) (simp add: w0_def)

end
